theory Spec2Isabelle
  imports Main "HOL-Library.Sublist"
begin

section \<open>JavaScript values as the tool handlers see them\<close>

text \<open>
  The argument bag of a tool call and the bodies of the remote service's answers are
  parsed JSON. A JSON number is modelled as an integer: every numeric field of the
  protocol (nonce, expiry, difficulty, counts, sats, milliseconds) is one.
  \<open>undefined\<close> is not a JSON value; a value that may be undefined is a \<open>json option\<close>
  with \<open>None\<close> for undefined.
\<close>

datatype json =
    JNull
  | JBool bool
  | JNum int
  | JStr string
  | JArr "json list"
  | JObj "(string \<times> json) list"

type_synonym jsval = "json option"

text \<open>Truthiness, as tested by \<open>if (x)\<close> and by \<open>a || b\<close>.\<close>

fun truthy :: "jsval \<Rightarrow> bool" where
  "truthy None = False"
| "truthy (Some JNull) = False"
| "truthy (Some (JBool b)) = b"
| "truthy (Some (JNum n)) = (n \<noteq> 0)"
| "truthy (Some (JStr s)) = (s \<noteq> [])"
| "truthy (Some (JArr xs)) = True"
| "truthy (Some (JObj kvs)) = True"

definition js_or :: "jsval \<Rightarrow> jsval \<Rightarrow> jsval" where
  "js_or a b = (if truthy a then a else b)"

text \<open>\<open>a ?? b\<close>: the right operand replaces only null and undefined.\<close>

definition nullish :: "jsval \<Rightarrow> bool" where
  "nullish v = (v = None \<or> v = Some JNull)"

definition js_coalesce :: "jsval \<Rightarrow> jsval \<Rightarrow> jsval" where
  "js_coalesce a b = (if nullish a then b else a)"

text \<open>
  Reading a property \<open>v.k\<close> of a value that is neither null nor undefined: an own
  property of an object, undefined on anything else (none of the names the handlers read
  is inherited from a prototype). On null and undefined the read throws; the handlers
  test \<open>nullish\<close> before they call \<open>getprop\<close> there.
\<close>

fun getprop :: "jsval \<Rightarrow> string \<Rightarrow> jsval" where
  "getprop (Some (JObj kvs)) k = map_of kvs k"
| "getprop v k = None"

text \<open>\<open>k in v\<close>: throws a TypeError (\<open>None\<close>) unless \<open>v\<close> is an object or an array.\<close>

fun js_in :: "string \<Rightarrow> json \<Rightarrow> bool option" where
  "js_in k (JObj kvs) = Some (map_of kvs k \<noteq> None)"
| "js_in k (JArr xs) = Some False"
| "js_in k v = None"

text \<open>
  A \<open>Map\<close> compares keys by SameValueZero: primitives by value, objects and arrays by
  identity. A key parsed from one message is never identical to an object parsed from
  another one.
\<close>

fun is_reference :: "jsval \<Rightarrow> bool" where
  "is_reference (Some (JArr xs)) = True"
| "is_reference (Some (JObj kvs)) = True"
| "is_reference v = False"

subsection \<open>Conversion to strings\<close>

definition digit_char :: "nat \<Rightarrow> char" where
  "digit_char d =
     (if d = 0 then CHR ''0'' else if d = 1 then CHR ''1'' else if d = 2 then CHR ''2''
      else if d = 3 then CHR ''3'' else if d = 4 then CHR ''4'' else if d = 5 then CHR ''5''
      else if d = 6 then CHR ''6'' else if d = 7 then CHR ''7'' else if d = 8 then CHR ''8''
      else CHR ''9'')"

fun string_of_nat :: "nat \<Rightarrow> string" where
  "string_of_nat n =
     (if n < 10 then [digit_char n] else string_of_nat (n div 10) @ [digit_char (n mod 10)])"

declare string_of_nat.simps [simp del]

definition string_of_int :: "int \<Rightarrow> string" where
  "string_of_int i = (if i < 0 then CHR ''-'' # string_of_nat (nat (- i)) else string_of_nat (nat i))"

fun join_comma :: "string list \<Rightarrow> string" where
  "join_comma [] = []"
| "join_comma [s] = s"
| "join_comma (s # t # ss) = s @ '','' @ join_comma (t # ss)"

text \<open>\<open>String(v)\<close> and \<open>`${v}`\<close>; an array joins its elements, null ones as empty.\<close>

fun to_string :: "json \<Rightarrow> string" where
  "to_string JNull = ''null''"
| "to_string (JBool b) = (if b then ''true'' else ''false'')"
| "to_string (JNum n) = string_of_int n"
| "to_string (JStr s) = s"
| "to_string (JArr xs) = join_comma (map (\<lambda>x. if x = JNull then [] else to_string x) xs)"
| "to_string (JObj kvs) = ''[object Object]''"

fun str :: "jsval \<Rightarrow> string" where
  "str None = ''undefined''"
| "str (Some v) = to_string v"

text \<open>
  \<open>JSON.stringify\<close> of an object literal leaves out the properties whose value is
  undefined: \<open>wire\<close> is the object that goes out.
\<close>

fun wire :: "(string \<times> jsval) list \<Rightarrow> (string \<times> json) list" where
  "wire [] = []"
| "wire ((k, None) # kvs) = wire kvs"
| "wire ((k, Some v) # kvs) = (k, v) # wire kvs"

section \<open>Configuration and session state\<close>

text \<open>
  The three constants read from the process environment at start-up.
  \<open>LIVEAUTH_API_BASE\<close> and \<open>LIVEAUTH_API_KEY\<close> are the values after their \<open>||\<close>
  defaults (so an unset key is the empty string); \<open>env_LIVEAUTH_DEMO\<close> is the raw
  variable. The module's two variables, \<open>cachedJwt\<close> (initially null) and the
  \<open>demoSessions\<close> map (initially empty), are the state.
\<close>

record config =
  LIVEAUTH_API_BASE :: string
  LIVEAUTH_API_KEY :: string
  env_LIVEAUTH_DEMO :: "string option"

definition LIVEAUTH_DEMO :: "config \<Rightarrow> bool" where
  "LIVEAUTH_DEMO cfg = (env_LIVEAUTH_DEMO cfg = Some ''true'' \<or> LIVEAUTH_API_KEY cfg = [])"

record DemoSession =
  quoteId :: jsval
  invoice :: jsval
  amountSats :: jsval
  paymentHash :: jsval
  paid :: bool
  createdAt :: int

record state =
  cachedJwt :: jsval
  demoSessions :: "jsval \<Rightarrow> DemoSession option"

definition initial_state :: state where
  "initial_state = \<lparr>cachedJwt = Some JNull, demoSessions = (\<lambda>k. None)\<rparr>"

text \<open>
  \<open>demoSessions.get(k)\<close> and \<open>demoSessions.set(k, v)\<close>. An entry stored under an object
  or array key can never be found again, so it is not kept.
\<close>

definition sessions_get :: "(jsval \<Rightarrow> DemoSession option) \<Rightarrow> jsval \<Rightarrow> DemoSession option" where
  "sessions_get m k = (if is_reference k then None else m k)"

definition sessions_set ::
  "(jsval \<Rightarrow> DemoSession option) \<Rightarrow> jsval \<Rightarrow> DemoSession \<Rightarrow> (jsval \<Rightarrow> DemoSession option)" where
  "sessions_set m k v = (if is_reference k then m else m(k \<mapsto> v))"

section \<open>The environment of one tool call\<close>

text \<open>
  What \<open>fetch\<close> gives back: the promise rejects (network failure, with the error's
  message), or a response arrives with its \<open>ok\<close> flag, status text and body; the body is
  \<open>Inl m\<close> when \<open>response.json()\<close> rejects with message \<open>m\<close>.
\<close>

datatype fetch_outcome =
    Rejected string
  | Responded bool string "string + json"

text \<open>
  A handler calls \<open>fetch\<close> at most once, so one outcome is enough. \<open>now\<close> is the first
  \<open>Date.now()\<close> of the call, \<open>now_expiry\<close> the one read for \<open>expiresAt\<close>,
  \<open>random_suffix\<close> is \<open>Math.random().toString(36).substr(2, 9)\<close>, \<open>type_error\<close> the
  message of a TypeError raised by the runtime, \<open>toISOString\<close> the rendering of a date.
\<close>

record env =
  now :: int
  now_expiry :: int
  random_suffix :: string
  fetched :: fetch_outcome
  type_error :: string
  toISOString :: "int \<Rightarrow> string"

record request =
  url :: string
  http_method :: string
  headers :: "(string \<times> string) list"
  body :: "json option"

text \<open>
  The response envelope \<open>{ content: [{ type: 'text', text }], isError? }\<close>. The text is
  either \<open>JSON.stringify(v, null, 2)\<close> of a value or a plain string; an absent \<open>isError\<close>
  is \<open>False\<close>.
\<close>

datatype tool_text = Stringify json | Plain string

record envelope =
  content :: tool_text
  isError :: bool

type_synonym handled = "request list \<times> state \<times> (string + envelope)"

definition getAuthHeaders :: "config \<Rightarrow> (string \<times> string) list" where
  "getAuthHeaders cfg =
     (''Content-Type'', ''application/json'') #
     (if LIVEAUTH_API_KEY cfg \<noteq> [] \<and> \<not> LIVEAUTH_DEMO cfg
      then [(''X-LW-Public'', LIVEAUTH_API_KEY cfg)] else [])"

text \<open>The \<open>authHeaders\<close> that charge and usage build from the cached credential.\<close>

definition authHeaders :: "jsval \<Rightarrow> (string \<times> string) list" where
  "authHeaders jwt =
     (''Content-Type'', ''application/json'') #
     (if truthy jwt then [(''Authorization'', ''Bearer '' @ str jwt)] else [])"

text \<open>
  The shared tail of every remote call: a rejected fetch and an unreadable body throw
  with their own message, a response that is not ok throws
  \<open>error.error_description || `<label>${response.statusText}`\<close>.
\<close>

definition read_response :: "string \<Rightarrow> env \<Rightarrow> string + json" where
  "read_response label e =
     (case fetched e of
        Rejected m \<Rightarrow> Inl m
      | Responded ok statusText b \<Rightarrow>
          (case b of
             Inl m \<Rightarrow> Inl m
           | Inr j \<Rightarrow>
               if ok then Inr j
               else if j = JNull then Inl (type_error e)
               else Inl (str (js_or (getprop (Some j) ''error_description'')
                                    (Some (JStr (label @ statusText)))))))"

section \<open>The tool handlers\<close>

text \<open>
  One definition for each case of the \<open>switch\<close> in the \<open>CallToolRequestSchema\<close> handler.
  A handler gives the requests it sent, the state it leaves and either the message of the
  error it threw (\<open>Inl\<close>) or its result. No handler assigns to the state before a point
  where it can throw, so a throw leaves the state as it was. Writes to stderr are left out.
  Destructuring \<open>args\<close> throws a TypeError when the call carries no arguments.
\<close>

definition ok_json :: "json \<Rightarrow> envelope" where
  "ok_json v = \<lparr>content = Stringify v, isError = False\<rparr>"

definition ok_plain :: "string \<Rightarrow> envelope" where
  "ok_plain s = \<lparr>content = Plain s, isError = False\<rparr>"

definition start_endpoint :: "config \<Rightarrow> string" where
  "start_endpoint cfg =
     (if LIVEAUTH_DEMO cfg then LIVEAUTH_API_BASE cfg @ ''/api/public/demo/start''
      else LIVEAUTH_API_BASE cfg @ ''/api/mcp/start'')"

definition start_request :: "config \<Rightarrow> (string \<times> json) list \<Rightarrow> request" where
  "start_request cfg a =
     \<lparr>url = start_endpoint cfg, http_method = ''POST'', headers = getAuthHeaders cfg,
      body = Some (JObj (wire
        [(''forceLightning'', js_coalesce (map_of a ''forceLightning'') (Some (JBool False)))]))\<rparr>"

text \<open>The session id the demo branch of start files the record under.\<close>

definition start_sessionId :: "json \<Rightarrow> jsval" where
  "start_sessionId result = js_or (getprop (Some result) ''quoteId'') (getprop (Some result) ''sessionId'')"

definition start_demo_session :: "env \<Rightarrow> json \<Rightarrow> DemoSession" where
  "start_demo_session e result =
     (let inv = getprop (Some result) ''invoice'' in
      \<lparr>quoteId = start_sessionId result,
       invoice = js_or (getprop inv ''bolt11'') inv,
       amountSats = js_or (js_or (getprop inv ''amountSats'') (getprop (Some result) ''amountSats''))
                          (Some (JNum 0)),
       paymentHash = js_or (getprop inv ''paymentHash'') (Some (JStr [])),
       paid = False,
       createdAt = now e\<rparr>)"

definition start_demo_text :: "json \<Rightarrow> json" where
  "start_demo_text result =
     (let inv = getprop (Some result) ''invoice'' in
      JObj (wire
        [(''quoteId'', start_sessionId result),
         (''powChallenge'', Some JNull),
         (''invoice'',
            if truthy inv
            then Some (JObj (wire
              [(''bolt11'', js_or (getprop inv ''bolt11'') inv),
               (''amountSats'',
                  js_or (js_or (getprop inv ''amountSats'') (getprop (Some result) ''amountSats''))
                        (Some (JNum 0))),
               (''expiresAtUnix'',
                  js_or (getprop inv ''expiresAtUnix'') (getprop (Some result) ''expiresAtUnix'')),
               (''paymentHash'', js_or (getprop inv ''paymentHash'') (Some (JStr [])))]))
            else Some JNull),
         (''_demo'', Some (JBool True)),
         (''_instructions'',
            Some (JStr ''Demo mode: Payment simulated. Use liveauth_mcp_confirm to complete.''))]))"

definition handle_start :: "config \<Rightarrow> env \<Rightarrow> state \<Rightarrow> (string \<times> json) list option \<Rightarrow> handled" where
  "handle_start cfg e st args =
     (case args of
        None \<Rightarrow> ([], st, Inl (type_error e))
      | Some a \<Rightarrow>
          (case read_response ''Start failed: '' e of
             Inl m \<Rightarrow> ([start_request cfg a], st, Inl m)
           | Inr result \<Rightarrow>
               if LIVEAUTH_DEMO cfg
               then (case js_in ''invoice'' result of
                       None \<Rightarrow> ([start_request cfg a], st, Inl (type_error e))
                     | Some True \<Rightarrow>
                         ([start_request cfg a],
                          (if truthy (getprop (Some result) ''invoice'')
                           then st\<lparr>demoSessions :=
                                     sessions_set (demoSessions st) (start_sessionId result)
                                       (start_demo_session e result)\<rparr>
                           else st),
                          Inr (ok_json (start_demo_text result)))
                     | Some False \<Rightarrow> ([start_request cfg a], st, Inr (ok_json result)))
               else ([start_request cfg a], st, Inr (ok_json result))))"

subsection \<open>confirm\<close>

text \<open>
  The \<open>body\<close> object of the confirm request: \<open>{ quoteId }\<close>, then one assignment for each
  proof-of-work field that passes its test; \<open>signature\<close> is stored under \<open>sig\<close>.
  \<open>confirm_body\<close> is what \<open>JSON.stringify(body)\<close> sends.
\<close>

definition confirm_fields :: "(string \<times> json) list \<Rightarrow> (string \<times> jsval) list" where
  "confirm_fields a =
     [(''quoteId'', map_of a ''quoteId'')]
     @ (if truthy (map_of a ''challengeHex'') then [(''challengeHex'', map_of a ''challengeHex'')] else [])
     @ (if map_of a ''nonce'' \<noteq> None then [(''nonce'', map_of a ''nonce'')] else [])
     @ (if truthy (map_of a ''hashHex'') then [(''hashHex'', map_of a ''hashHex'')] else [])
     @ (if truthy (map_of a ''expiresAtUnix'') then [(''expiresAtUnix'', map_of a ''expiresAtUnix'')] else [])
     @ (if truthy (map_of a ''difficultyBits'') then [(''difficultyBits'', map_of a ''difficultyBits'')] else [])
     @ (if truthy (map_of a ''signature'') then [(''sig'', map_of a ''signature'')] else [])"

definition confirm_body :: "(string \<times> json) list \<Rightarrow> (string \<times> json) list" where
  "confirm_body a = wire (confirm_fields a)"

text \<open>
  The earlier revision of the handler kept in \<open>src/index.ts\<close> passes one object literal
  to \<open>JSON.stringify\<close>, with all seven fields and \<open>sig: signature\<close>.
\<close>

definition confirm_body_first :: "(string \<times> json) list \<Rightarrow> (string \<times> json) list" where
  "confirm_body_first a =
     wire [(''quoteId'', map_of a ''quoteId''),
           (''challengeHex'', map_of a ''challengeHex''),
           (''nonce'', map_of a ''nonce''),
           (''hashHex'', map_of a ''hashHex''),
           (''expiresAtUnix'', map_of a ''expiresAtUnix''),
           (''difficultyBits'', map_of a ''difficultyBits''),
           (''sig'', map_of a ''signature'')]"

definition confirm_request :: "config \<Rightarrow> (string \<times> json) list \<Rightarrow> request" where
  "confirm_request cfg a =
     \<lparr>url = LIVEAUTH_API_BASE cfg @ ''/api/mcp/confirm'', http_method = ''POST'',
      headers = getAuthHeaders cfg, body = Some (JObj (confirm_body a))\<rparr>"

definition demoJwt :: "env \<Rightarrow> string" where
  "demoJwt e = ''demo_jwt_'' @ string_of_int (now e) @ ''_'' @ random_suffix e"

definition confirm_demo_text :: "env \<Rightarrow> json" where
  "confirm_demo_text e =
     JObj [(''jwt'', JStr (demoJwt e)),
           (''expiresIn'', JNum 3600),
           (''remainingBudgetSats'', JNum 1000),
           (''paymentStatus'', JStr ''paid''),
           (''_demo'', JBool True),
           (''_note'', JStr ''Demo mode - this is a simulated JWT'')]"

text \<open>
  The guard \<open>LIVEAUTH_DEMO && demoSessions.has(quoteId)\<close> of confirm and status, with the
  record that \<open>demoSessions.get(quoteId)\<close> then gives.
\<close>

definition demo_session :: "config \<Rightarrow> state \<Rightarrow> (string \<times> json) list \<Rightarrow> DemoSession option" where
  "demo_session cfg st a =
     (if LIVEAUTH_DEMO cfg then sessions_get (demoSessions st) (map_of a ''quoteId'') else None)"

definition handle_confirm :: "config \<Rightarrow> env \<Rightarrow> state \<Rightarrow> (string \<times> json) list option \<Rightarrow> handled" where
  "handle_confirm cfg e st args =
     (case args of
        None \<Rightarrow> ([], st, Inl (type_error e))
      | Some a \<Rightarrow>
          (case demo_session cfg st a of
             Some session \<Rightarrow>
               ([],
                st\<lparr>demoSessions :=
                      sessions_set (demoSessions st) (map_of a ''quoteId'') (session\<lparr>paid := True\<rparr>),
                   cachedJwt := Some (JStr (demoJwt e))\<rparr>,
                Inr (ok_json (confirm_demo_text e)))
           | None \<Rightarrow>
               (case read_response ''Confirm failed: '' e of
                  Inl m \<Rightarrow> ([confirm_request cfg a], st, Inl m)
                | Inr result \<Rightarrow>
                    if result = JNull then ([confirm_request cfg a], st, Inl (type_error e))
                    else if getprop (Some result) ''paymentStatus'' = Some (JStr ''pending'')
                    then ([confirm_request cfg a], st,
                          Inr (ok_plain
                            (''Lightning payment pending. Poll with liveauth_mcp_status using quoteId: ''
                             @ str (map_of a ''quoteId''))))
                    else ([confirm_request cfg a],
                          (if truthy (getprop (Some result) ''jwt'')
                           then st\<lparr>cachedJwt := getprop (Some result) ''jwt''\<rparr> else st),
                          Inr (ok_json result)))))"

subsection \<open>charge and usage\<close>

definition charge_request :: "config \<Rightarrow> state \<Rightarrow> (string \<times> json) list \<Rightarrow> request" where
  "charge_request cfg st a =
     \<lparr>url = LIVEAUTH_API_BASE cfg @ ''/api/mcp/charge'', http_method = ''POST'',
      headers = authHeaders (cachedJwt st),
      body = Some (JObj (wire [(''callCostSats'', map_of a ''callCostSats'')]))\<rparr>"

definition deny_text :: "json \<Rightarrow> string" where
  "deny_text result =
     ''Budget exceeded! Calls used: '' @ str (getprop (Some result) ''callsUsed'')
     @ '', Sats used: '' @ str (getprop (Some result) ''satsUsed'')
     @ ''. Stop making API calls.''"

definition handle_charge :: "config \<Rightarrow> env \<Rightarrow> state \<Rightarrow> (string \<times> json) list option \<Rightarrow> handled" where
  "handle_charge cfg e st args =
     (case args of
        None \<Rightarrow> ([], st, Inl (type_error e))
      | Some a \<Rightarrow>
          (case read_response ''Charge failed: '' e of
             Inl m \<Rightarrow> ([charge_request cfg st a], st, Inl m)
           | Inr result \<Rightarrow>
               if result = JNull then ([charge_request cfg st a], st, Inl (type_error e))
               else if getprop (Some result) ''status'' = Some (JStr ''deny'')
               then ([charge_request cfg st a], st,
                     Inr \<lparr>content = Plain (deny_text result), isError = True\<rparr>)
               else ([charge_request cfg st a], st, Inr (ok_json result))))"

definition usage_demo_text :: json where
  "usage_demo_text =
     JObj [(''status'', JStr ''active''),
           (''callsUsed'', JNum 0),
           (''satsUsed'', JNum 0),
           (''maxSatsPerDay'', JNum 1000),
           (''remainingBudgetSats'', JNum 1000),
           (''maxCallsPerMinute'', JNum 60),
           (''_demo'', JBool True)]"

definition usage_request :: "config \<Rightarrow> state \<Rightarrow> request" where
  "usage_request cfg st =
     \<lparr>url = LIVEAUTH_API_BASE cfg @ ''/api/mcp/usage'', http_method = ''GET'',
      headers = authHeaders (cachedJwt st), body = None\<rparr>"

definition handle_usage :: "config \<Rightarrow> env \<Rightarrow> state \<Rightarrow> (string \<times> json) list option \<Rightarrow> handled" where
  "handle_usage cfg e st args =
     (if LIVEAUTH_DEMO cfg then ([], st, Inr (ok_json usage_demo_text))
      else (case read_response ''Usage query failed: '' e of
              Inl m \<Rightarrow> ([usage_request cfg st], st, Inl m)
            | Inr result \<Rightarrow> ([usage_request cfg st], st, Inr (ok_json result))))"

subsection \<open>status, lnurl and refresh\<close>

text \<open>
  The demo branch of status marks an unpaid record paid when more than 2000 ms have
  passed since it was created, and answers from the record.
\<close>

definition status_poll :: "env \<Rightarrow> DemoSession \<Rightarrow> DemoSession" where
  "status_poll e session =
     (if \<not> paid session \<and> now e - createdAt session > 2000 then session\<lparr>paid := True\<rparr>
      else session)"

definition status_demo_text :: "env \<Rightarrow> DemoSession \<Rightarrow> json" where
  "status_demo_text e session =
     JObj (wire
       [(''quoteId'', quoteId session),
        (''status'', Some (JStr (if paid session then ''confirmed'' else ''pending''))),
        (''paymentStatus'', Some (JStr (if paid session then ''paid'' else ''pending''))),
        (''expiresAt'', Some (JStr (toISOString e (now_expiry e + 300000)))),
        (''_demo'', Some (JBool True)),
        (''_instructions'',
           Some (JStr (if paid session
                       then ''Payment confirmed in demo mode. Use liveauth_mcp_confirm to get JWT.''
                       else ''Demo mode: Invoice generated but not actually paid. Use liveauth_mcp_confirm to simulate completion.'')))])"

definition status_request :: "config \<Rightarrow> (string \<times> json) list \<Rightarrow> request" where
  "status_request cfg a =
     \<lparr>url = LIVEAUTH_API_BASE cfg @ ''/api/mcp/status/'' @ str (map_of a ''quoteId''),
      http_method = ''GET'', headers = getAuthHeaders cfg, body = None\<rparr>"

definition handle_status :: "config \<Rightarrow> env \<Rightarrow> state \<Rightarrow> (string \<times> json) list option \<Rightarrow> handled" where
  "handle_status cfg e st args =
     (case args of
        None \<Rightarrow> ([], st, Inl (type_error e))
      | Some a \<Rightarrow>
          (case demo_session cfg st a of
             Some session \<Rightarrow>
               ([],
                st\<lparr>demoSessions :=
                      sessions_set (demoSessions st) (map_of a ''quoteId'') (status_poll e session)\<rparr>,
                Inr (ok_json (status_demo_text e (status_poll e session))))
           | None \<Rightarrow>
               (case read_response ''Status check failed: '' e of
                  Inl m \<Rightarrow> ([status_request cfg a], st, Inl m)
                | Inr result \<Rightarrow> ([status_request cfg a], st, Inr (ok_json result)))))"

definition lnurl_request :: "config \<Rightarrow> (string \<times> json) list \<Rightarrow> request" where
  "lnurl_request cfg a =
     \<lparr>url = LIVEAUTH_API_BASE cfg @ ''/api/mcp/lnurl/'' @ str (map_of a ''quoteId''),
      http_method = ''GET'', headers = getAuthHeaders cfg, body = None\<rparr>"

definition handle_lnurl :: "config \<Rightarrow> env \<Rightarrow> state \<Rightarrow> (string \<times> json) list option \<Rightarrow> handled" where
  "handle_lnurl cfg e st args =
     (case args of
        None \<Rightarrow> ([], st, Inl (type_error e))
      | Some a \<Rightarrow>
          (case read_response ''Lnurl fetch failed: '' e of
             Inl m \<Rightarrow> ([lnurl_request cfg a], st, Inl m)
           | Inr result \<Rightarrow> ([lnurl_request cfg a], st, Inr (ok_json result))))"

definition refresh_request :: "config \<Rightarrow> (string \<times> json) list \<Rightarrow> request" where
  "refresh_request cfg a =
     \<lparr>url = LIVEAUTH_API_BASE cfg @ ''/api/mcp/refresh'', http_method = ''POST'',
      headers = [(''Content-Type'', ''application/json'')],
      body = Some (JObj (wire [(''refreshToken'', map_of a ''refreshToken'')]))\<rparr>"

definition handle_refresh :: "config \<Rightarrow> env \<Rightarrow> state \<Rightarrow> (string \<times> json) list option \<Rightarrow> handled" where
  "handle_refresh cfg e st args =
     (case args of
        None \<Rightarrow> ([], st, Inl (type_error e))
      | Some a \<Rightarrow>
          (case read_response ''Refresh failed: '' e of
             Inl m \<Rightarrow> ([refresh_request cfg a], st, Inl m)
           | Inr result \<Rightarrow>
               if result = JNull then ([refresh_request cfg a], st, Inl (type_error e))
               else ([refresh_request cfg a],
                     st\<lparr>cachedJwt := getprop (Some result) ''jwt''\<rparr>,
                     Inr (ok_json result))))"

section \<open>The dispatcher\<close>

text \<open>The \<open>switch (name)\<close>; its default case throws.\<close>

definition dispatch ::
  "config \<Rightarrow> env \<Rightarrow> state \<Rightarrow> string \<Rightarrow> (string \<times> json) list option \<Rightarrow> handled" where
  "dispatch cfg e st name args =
     (if name = ''liveauth_mcp_start'' then handle_start cfg e st args
      else if name = ''liveauth_mcp_confirm'' then handle_confirm cfg e st args
      else if name = ''liveauth_mcp_charge'' then handle_charge cfg e st args
      else if name = ''liveauth_mcp_usage'' then handle_usage cfg e st args
      else if name = ''liveauth_mcp_status'' then handle_status cfg e st args
      else if name = ''liveauth_mcp_lnurl'' then handle_lnurl cfg e st args
      else if name = ''liveauth_mcp_refresh'' then handle_refresh cfg e st args
      else ([], st, Inl (''Unknown tool: '' @ name)))"

text \<open>The \<open>try\<close>/\<open>catch\<close> around the switch: every throw becomes an error envelope.\<close>

definition call_tool ::
  "config \<Rightarrow> env \<Rightarrow> state \<Rightarrow> string \<Rightarrow> (string \<times> json) list option
     \<Rightarrow> request list \<times> state \<times> envelope" where
  "call_tool cfg e st name args =
     (case dispatch cfg e st name args of
        (reqs, st', Inl m) \<Rightarrow> (reqs, st', \<lparr>content = Plain (''Error: '' @ m), isError = True\<rparr>)
      | (reqs, st', Inr r) \<Rightarrow> (reqs, st', r))"

definition sent :: "request list \<times> state \<times> envelope \<Rightarrow> request list" where
  "sent r = fst r"

definition state_after :: "request list \<times> state \<times> envelope \<Rightarrow> state" where
  "state_after r = fst (snd r)"

definition reply :: "request list \<times> state \<times> envelope \<Rightarrow> envelope" where
  "reply r = snd (snd r)"

subsection \<open>Execution histories\<close>

text \<open>
  The runtime handles one tool call at a time; a history is the list of calls, each with
  the environment it ran in.
\<close>

record call =
  tool :: string
  arguments :: "(string \<times> json) list option"
  environment :: env

fun run :: "config \<Rightarrow> state \<Rightarrow> call list \<Rightarrow> state" where
  "run cfg st [] = st"
| "run cfg st (c # cs) =
     run cfg (state_after (call_tool cfg (environment c) st (tool c) (arguments c))) cs"

text \<open>What a field of the JSON text of a reply holds.\<close>

definition reply_field :: "envelope \<Rightarrow> string \<Rightarrow> jsval" where
  "reply_field r k = (case content r of Stringify v \<Rightarrow> getprop (Some v) k | Plain s \<Rightarrow> None)"


section \<open>Notions used in the statements\<close>

text \<open>The names of the \<open>TOOLS\<close> array.\<close>

definition TOOLS :: "string list" where
  "TOOLS = [''liveauth_mcp_start'', ''liveauth_mcp_status'', ''liveauth_mcp_lnurl'',
            ''liveauth_mcp_confirm'', ''liveauth_mcp_charge'', ''liveauth_mcp_usage'',
            ''liveauth_mcp_refresh'']"

text \<open>A field of the body of an ok response; undefined when there is no such body.\<close>

definition ok_response_field :: "env \<Rightarrow> string \<Rightarrow> jsval" where
  "ok_response_field e k =
     (case fetched e of
        Rejected m \<Rightarrow> None
      | Responded ok stt b \<Rightarrow>
          (if ok then (case b of Inl m \<Rightarrow> None | Inr result \<Rightarrow> getprop (Some result) k) else None))"

text \<open>A start call whose response names session id \<open>q\<close>: the only call that files a new record under \<open>q\<close>.\<close>

definition registers :: "call \<Rightarrow> jsval \<Rightarrow> bool" where
  "registers c q =
     (tool c = ''liveauth_mcp_start'' \<and>
      (case fetched (environment c) of
         Rejected m \<Rightarrow> False
       | Responded ok stt b \<Rightarrow> (case b of Inl m \<Rightarrow> False | Inr result \<Rightarrow> start_sessionId result = q)))"

section \<open>Example configurations, calls and states\<close>

text \<open>
  \<open>example_config\<close> has no API key and so runs in demo mode; \<open>live_config\<close> has one.
  In \<open>example_env\<close> the rendering of dates is a stand-in; no statement depends on it.
  \<open>started_state\<close> is reached from the initial state by one start call in demo mode
  whose response carries an invoice; \<open>q1_record\<close> is the record it files.
\<close>

definition example_config :: config where
  "example_config = \<lparr>LIVEAUTH_API_BASE = ''https://api.liveauth.app'', LIVEAUTH_API_KEY = [],
                      env_LIVEAUTH_DEMO = None\<rparr>"

definition live_config :: config where
  "live_config = \<lparr>LIVEAUTH_API_BASE = ''https://api.liveauth.app'', LIVEAUTH_API_KEY = ''la_pk_test123'',
                   env_LIVEAUTH_DEMO = None\<rparr>"

definition example_env :: "int \<Rightarrow> fetch_outcome \<Rightarrow> env" where
  "example_env t f = \<lparr>now = t, now_expiry = t, random_suffix = ''k3j9x0a1b'', fetched = f,
                      type_error = ''Cannot destructure'', toISOString = (\<lambda>ms. ''T'' @ string_of_int ms)\<rparr>"

definition q1_args :: "(string \<times> json) list" where
  "q1_args = [(''quoteId'', JStr ''q1'')]"


definition charge_args :: "(string \<times> json) list" where
  "charge_args = [(''callCostSats'', JNum 3)]"

definition pow_args :: "(string \<times> json) list" where
  "pow_args =
     [(''quoteId'', JStr ''q7''), (''challengeHex'', JStr ''a1b2c3''), (''nonce'', JNum 0),
      (''hashHex'', JStr ''0000ab''), (''expiresAtUnix'', JNum 1700000000),
      (''difficultyBits'', JNum 18), (''signature'', JStr ''c2lnbmVk'')]"

definition empty_signature_args :: "(string \<times> json) list" where
  "empty_signature_args =
     [(''quoteId'', JStr ''q7''), (''challengeHex'', JStr ''a1b2c3''), (''nonce'', JNum 0),
      (''hashHex'', JStr ''0000ab''), (''expiresAtUnix'', JNum 1700000000),
      (''difficultyBits'', JNum 18), (''signature'', JStr [])]"

definition zero_difficulty_args :: "(string \<times> json) list" where
  "zero_difficulty_args =
     [(''quoteId'', JStr ''q7''), (''challengeHex'', JStr ''a1b2c3''), (''nonce'', JNum 41),
      (''hashHex'', JStr ''0000ab''), (''expiresAtUnix'', JNum 1700000000),
      (''difficultyBits'', JNum 0), (''signature'', JStr ''c2lnbmVk'')]"

definition deny_body :: json where
  "deny_body = JObj [(''status'', JStr ''deny''), (''callsUsed'', JNum 100), (''satsUsed'', JNum 1000)]"

definition pending_body :: json where
  "pending_body = JObj [(''jwt'', JNull), (''expiresIn'', JNum 0), (''remainingBudgetSats'', JNum 0),
                        (''paymentStatus'', JStr ''pending'')]"

definition refresh_body :: json where
  "refresh_body = JObj [(''jwt'', JStr ''jwt.from.refresh''), (''expiresIn'', JNum 600),
                        (''remainingBudgetSats'', JNum 900)]"

definition confirm_jwt_body :: json where
  "confirm_jwt_body = JObj [(''jwt'', JStr ''jwt.from.confirm''), (''expiresIn'', JNum 600),
                            (''remainingBudgetSats'', JNum 1000), (''refreshToken'', JStr ''rt1'')]"

definition paid_invoice_start :: json where
  "paid_invoice_start =
     JObj [(''sessionId'', JStr ''q1''), (''invoice'', JStr ''lnbc1demo''), (''amountSats'', JNum 100),
           (''expiresAtUnix'', JNum 1700000300)]"

definition q1_record :: DemoSession where
  "q1_record = \<lparr>quoteId = Some (JStr ''q1''), invoice = Some (JStr ''lnbc1demo''),
                 amountSats = Some (JNum 100), paymentHash = Some (JStr []), paid = False,
                 createdAt = 1000\<rparr>"

definition started_state :: state where
  "started_state =
     state_after (call_tool example_config (example_env 1000 (Responded True ''OK'' (Inr paid_invoice_start)))
                    initial_state ''liveauth_mcp_start'' (Some []))"

definition polled_state :: state where
  "polled_state =
     state_after (call_tool example_config (example_env 3001 (Rejected ''offline'')) started_state
                    ''liveauth_mcp_status'' (Some q1_args))"

definition refresh_call :: call where
  "refresh_call = \<lparr>tool = ''liveauth_mcp_refresh'', arguments = Some [(''refreshToken'', JStr ''rt1'')],
                    environment = example_env 5000 (Responded True ''OK'' (Inr refresh_body))\<rparr>"

definition status_call :: call where
  "status_call = \<lparr>tool = ''liveauth_mcp_status'', arguments = Some [(''quoteId'', JStr ''q1'')],
                   environment = example_env 6000 (Responded True ''OK'' (Inr (JObj [(''quoteId'', JStr ''q1''),
                      (''status'', JStr ''pending''), (''paymentStatus'', JStr ''pending'')])))\<rparr>"

definition confirm_call :: call where
  "confirm_call = \<lparr>tool = ''liveauth_mcp_confirm'', arguments = Some q1_args,
                    environment = example_env 4000 (Responded True ''OK'' (Inr confirm_jwt_body))\<rparr>"

section \<open>Properties of the handlers\<close>

subsection \<open>Failures become error envelopes\<close>

lemma read_response_not_ok:
  "fetched e = Rejected m \<or> fetched e = Responded False stt b \<Longrightarrow> \<exists>m'. read_response label e = Inl m'"
  by (auto simp: read_response_def split: sum.splits)

lemma handle_start_fails:
  "read_response ''Start failed: '' e = Inl m \<Longrightarrow> \<exists>m'. snd (snd (handle_start cfg e st args)) = Inl m'"
  by (simp add: handle_start_def split: option.splits)

lemma handle_confirm_fails:
  "read_response ''Confirm failed: '' e = Inl m \<Longrightarrow> fst (handle_confirm cfg e st args) \<noteq> []
    \<Longrightarrow> \<exists>m'. snd (snd (handle_confirm cfg e st args)) = Inl m'"
  by (auto simp: handle_confirm_def split: option.splits)

lemma handle_charge_fails:
  "read_response ''Charge failed: '' e = Inl m \<Longrightarrow> \<exists>m'. snd (snd (handle_charge cfg e st args)) = Inl m'"
  by (simp add: handle_charge_def split: option.splits)

lemma handle_usage_fails:
  "read_response ''Usage query failed: '' e = Inl m \<Longrightarrow> fst (handle_usage cfg e st args) \<noteq> []
    \<Longrightarrow> \<exists>m'. snd (snd (handle_usage cfg e st args)) = Inl m'"
  by (simp add: handle_usage_def split: if_splits)

lemma handle_status_fails:
  "read_response ''Status check failed: '' e = Inl m \<Longrightarrow> fst (handle_status cfg e st args) \<noteq> []
    \<Longrightarrow> \<exists>m'. snd (snd (handle_status cfg e st args)) = Inl m'"
  by (auto simp: handle_status_def split: option.splits)

lemma handle_lnurl_fails:
  "read_response ''Lnurl fetch failed: '' e = Inl m \<Longrightarrow> \<exists>m'. snd (snd (handle_lnurl cfg e st args)) = Inl m'"
  by (simp add: handle_lnurl_def split: option.splits)

lemma handle_refresh_fails:
  "read_response ''Refresh failed: '' e = Inl m \<Longrightarrow> \<exists>m'. snd (snd (handle_refresh cfg e st args)) = Inl m'"
  by (simp add: handle_refresh_def split: option.splits)

lemma dispatch_fails:
  assumes "fetched e = Rejected m \<or> fetched e = Responded False stt b"
    and "fst (dispatch cfg e st name args) \<noteq> []"
  shows "\<exists>m'. snd (snd (dispatch cfg e st name args)) = Inl m'"
proof -
  have r: "\<exists>m'. read_response label e = Inl m'" for label
    using assms(1) by (rule read_response_not_ok)
  consider "name = ''liveauth_mcp_start''" | "name = ''liveauth_mcp_confirm''"
    | "name = ''liveauth_mcp_charge''" | "name = ''liveauth_mcp_usage''"
    | "name = ''liveauth_mcp_status''" | "name = ''liveauth_mcp_lnurl''"
    | "name = ''liveauth_mcp_refresh''" | "name \<notin> set TOOLS"
    by (auto simp: TOOLS_def)
  then show ?thesis
  proof cases
    case 1
    with r [of "''Start failed: ''"] show ?thesis
      by (auto simp: dispatch_def dest: handle_start_fails)
  next
    case 2
    with r [of "''Confirm failed: ''"] assms(2) show ?thesis
      by (auto simp: dispatch_def dest: handle_confirm_fails)
  next
    case 3
    with r [of "''Charge failed: ''"] show ?thesis
      by (auto simp: dispatch_def dest: handle_charge_fails)
  next
    case 4
    with r [of "''Usage query failed: ''"] assms(2) show ?thesis
      by (auto simp: dispatch_def dest: handle_usage_fails)
  next
    case 5
    with r [of "''Status check failed: ''"] assms(2) show ?thesis
      by (auto simp: dispatch_def dest: handle_status_fails)
  next
    case 6
    with r [of "''Lnurl fetch failed: ''"] show ?thesis
      by (auto simp: dispatch_def dest: handle_lnurl_fails)
  next
    case 7
    with r [of "''Refresh failed: ''"] show ?thesis
      by (auto simp: dispatch_def dest: handle_refresh_fails)
  next
    case 8
    then show ?thesis by (simp add: dispatch_def TOOLS_def)
  qed
qed

lemma call_tool_parts:
  "sent (call_tool cfg e st name args) = fst (dispatch cfg e st name args)"
  "state_after (call_tool cfg e st name args) = fst (snd (dispatch cfg e st name args))"
  "reply (call_tool cfg e st name args) =
     (case snd (snd (dispatch cfg e st name args)) of
        Inl m \<Rightarrow> \<lparr>content = Plain (''Error: '' @ m), isError = True\<rparr> | Inr r \<Rightarrow> r)"
  by (simp_all add: call_tool_def sent_def state_after_def reply_def split: prod.splits sum.splits)

text \<open>
  Claim C5. The dispatcher never raises to its caller. \<open>call_tool\<close> always gives an
  envelope; whatever a handler throws with message \<open>m\<close> comes back as the text
  \<open>Error: m\<close> with \<open>isError\<close> true; a name that is none of the tools comes back as
  \<open>Error: Unknown tool: name\<close> with \<open>isError\<close> true, no request sent and the state
  untouched; and whenever a request went out and the fetch was rejected or answered with a
  response that is not ok, the envelope is an error envelope.
\<close>

theorem invoke_never_raises:
  "(snd (snd (dispatch cfg e st name args)) = Inl m \<longrightarrow>
      reply (call_tool cfg e st name args) = \<lparr>content = Plain (''Error: '' @ m), isError = True\<rparr>)
   \<and> (name \<notin> set TOOLS \<longrightarrow>
        call_tool cfg e st name args =
          ([], st, \<lparr>content = Plain (''Error: Unknown tool: '' @ name), isError = True\<rparr>))
   \<and> ((fetched e = Rejected m' \<or> fetched e = Responded False stt b)
        \<and> sent (call_tool cfg e st name args) \<noteq> [] \<longrightarrow>
        isError (reply (call_tool cfg e st name args)))"
proof (intro conjI impI)
  assume "snd (snd (dispatch cfg e st name args)) = Inl m"
  then show "reply (call_tool cfg e st name args) = \<lparr>content = Plain (''Error: '' @ m), isError = True\<rparr>"
    by (simp add: call_tool_parts)
next
  assume "name \<notin> set TOOLS"
  then show "call_tool cfg e st name args =
          ([], st, \<lparr>content = Plain (''Error: Unknown tool: '' @ name), isError = True\<rparr>)"
    by (simp add: call_tool_def dispatch_def TOOLS_def)
next
  assume a: "(fetched e = Rejected m' \<or> fetched e = Responded False stt b)
        \<and> sent (call_tool cfg e st name args) \<noteq> []"
  then obtain m'' where "snd (snd (dispatch cfg e st name args)) = Inl m''"
    using dispatch_fails [of e m' stt b cfg st name args] by (auto simp: call_tool_parts)
  then show "isError (reply (call_tool cfg e st name args))"
    by (simp add: call_tool_parts)
qed

theorem invoke_never_raises_witness:
  "snd (snd (dispatch example_config (example_env 0 (Rejected ''socket hang up'')) initial_state
              ''liveauth_mcp_delete'' None)) = Inl ''Unknown tool: liveauth_mcp_delete''
   \<and> ''liveauth_mcp_delete'' \<notin> set TOOLS
   \<and> call_tool example_config (example_env 0 (Rejected ''socket hang up'')) initial_state
        ''liveauth_mcp_delete'' None =
       ([], initial_state, \<lparr>content = Plain ''Error: Unknown tool: liveauth_mcp_delete'', isError = True\<rparr>)
   \<and> fetched (example_env 0 (Rejected ''socket hang up'')) = Rejected ''socket hang up''
   \<and> sent (call_tool example_config (example_env 0 (Rejected ''socket hang up'')) initial_state
        ''liveauth_mcp_charge'' (Some [(''callCostSats'', JNum 3)])) \<noteq> []
   \<and> isError (reply (call_tool example_config (example_env 0 (Rejected ''socket hang up'')) initial_state
        ''liveauth_mcp_charge'' (Some [(''callCostSats'', JNum 3)])))"
proof -
  have h1: "snd (snd (dispatch example_config (example_env 0 (Rejected ''socket hang up'')) initial_state
              ''liveauth_mcp_delete'' None)) = Inl ''Unknown tool: liveauth_mcp_delete''"
    by (simp add: dispatch_def)
  have h2: "''liveauth_mcp_delete'' \<notin> set TOOLS"
    by (simp add: TOOLS_def)
  have h3: "fetched (example_env 0 (Rejected ''socket hang up'')) = Rejected ''socket hang up''"
    by (simp add: example_env_def)
  have h4: "sent (call_tool example_config (example_env 0 (Rejected ''socket hang up'')) initial_state
        ''liveauth_mcp_charge'' (Some [(''callCostSats'', JNum 3)])) \<noteq> []"
    by (simp add: call_tool_parts dispatch_def handle_charge_def split: sum.splits)
  from invoke_never_raises [of example_config "example_env 0 (Rejected ''socket hang up'')" initial_state
      "''liveauth_mcp_delete''" None "''Unknown tool: liveauth_mcp_delete''" "''socket hang up''" "[]" "Inl []"]
    invoke_never_raises [of example_config "example_env 0 (Rejected ''socket hang up'')" initial_state
      "''liveauth_mcp_charge''" "Some [(''callCostSats'', JNum 3)]" "[]" "''socket hang up''" "[]" "Inl []"]
    h1 h2 h3 h4
  show ?thesis by simp
qed

subsection \<open>A denied charge\<close>



subsection \<open>Confirm in demo mode\<close>

lemma sessions_get_set_same:
  "sessions_get m k = Some s \<Longrightarrow> sessions_get (sessions_set m k v) k = Some v"
  by (simp add: sessions_get_def sessions_set_def split: if_splits)

lemma sessions_get_set_other:
  "k' \<noteq> k \<Longrightarrow> sessions_get (sessions_set m k v) k' = sessions_get m k'"
  by (simp add: sessions_get_def sessions_set_def)

text \<open>
  Claim C3. In demo mode, confirm on a session id that has a Demo Payment Record sends
  nothing, answers with the non-null token \<open>demoJwt\<close>, marks the record paid and caches
  the token, whatever the clock says and whether the record was already paid or not
  (hence whether or not status was polled before).
\<close>

theorem demo_confirm_returns_token:
  assumes "LIVEAUTH_DEMO cfg"
    and "sessions_get (demoSessions st) (map_of a ''quoteId'') = Some session"
  shows "sent (call_tool cfg e st ''liveauth_mcp_confirm'' (Some a)) = []
       \<and> reply (call_tool cfg e st ''liveauth_mcp_confirm'' (Some a)) = ok_json (confirm_demo_text e)
       \<and> reply_field (reply (call_tool cfg e st ''liveauth_mcp_confirm'' (Some a))) ''jwt''
           = Some (JStr (demoJwt e))
       \<and> demoJwt e \<noteq> []
       \<and> \<not> isError (reply (call_tool cfg e st ''liveauth_mcp_confirm'' (Some a)))
       \<and> sessions_get (demoSessions (state_after (call_tool cfg e st ''liveauth_mcp_confirm'' (Some a))))
            (map_of a ''quoteId'') = Some (session\<lparr>paid := True\<rparr>)
       \<and> cachedJwt (state_after (call_tool cfg e st ''liveauth_mcp_confirm'' (Some a)))
            = Some (JStr (demoJwt e))"
proof -
  from assms have d: "demo_session cfg st a = Some session"
    by (simp add: demo_session_def)
  have h: "dispatch cfg e st ''liveauth_mcp_confirm'' (Some a) =
      ([], st\<lparr>demoSessions := sessions_set (demoSessions st) (map_of a ''quoteId'') (session\<lparr>paid := True\<rparr>),
              cachedJwt := Some (JStr (demoJwt e))\<rparr>,
       Inr (ok_json (confirm_demo_text e)))"
    using d by (simp add: dispatch_def handle_confirm_def)
  show ?thesis
    using assms(2)
    by (simp add: call_tool_parts h ok_json_def confirm_demo_text_def demoJwt_def
        sessions_get_set_same reply_field_def)
qed


lemma started_state_session:
  "sessions_get (demoSessions started_state) (Some (JStr ''q1'')) = Some q1_record"
  by (simp add: started_state_def call_tool_parts dispatch_def handle_start_def read_response_def
      example_env_def example_config_def LIVEAUTH_DEMO_def paid_invoice_start_def initial_state_def
      sessions_get_def sessions_set_def start_sessionId_def start_demo_session_def js_or_def
      q1_record_def)

lemma example_config_demo: "LIVEAUTH_DEMO example_config"
  by (simp add: example_config_def LIVEAUTH_DEMO_def)

theorem demo_confirm_returns_token_witness:
  "LIVEAUTH_DEMO example_config
   \<and> sessions_get (demoSessions started_state) (map_of [(''quoteId'', JStr ''q1'')] ''quoteId'') \<noteq> None
   \<and> sent (call_tool example_config (example_env 1001 (Rejected ''unreachable'')) started_state
             ''liveauth_mcp_confirm'' (Some [(''quoteId'', JStr ''q1'')])) = []
   \<and> reply_field (reply (call_tool example_config (example_env 1001 (Rejected ''unreachable'')) started_state
             ''liveauth_mcp_confirm'' (Some [(''quoteId'', JStr ''q1'')]))) ''jwt''
        = Some (JStr ''demo_jwt_1001_k3j9x0a1b'')"
proof -
  have h2: "sessions_get (demoSessions started_state) (map_of [(''quoteId'', JStr ''q1'')] ''quoteId'') =
     Some q1_record"
    using started_state_session by simp
  have j: "demoJwt (example_env 1001 (Rejected ''unreachable'')) = ''demo_jwt_1001_k3j9x0a1b''"
    by (simp add: demoJwt_def example_env_def string_of_int_def string_of_nat.simps digit_char_def)
  note t = demo_confirm_returns_token [OF example_config_demo h2,
      of "example_env 1001 (Rejected ''unreachable'')", unfolded j]
  from h2 have h2': "sessions_get (demoSessions started_state) (map_of [(''quoteId'', JStr ''q1'')] ''quoteId'') \<noteq> None"
    by simp
  from t example_config_demo h2' show ?thesis by blast
qed


subsection \<open>Who writes the cached credential\<close>

lemma truthy_not_nullish: "truthy v \<Longrightarrow> \<not> nullish v"
  by (cases v) (auto simp: nullish_def)

lemma handle_start_cachedJwt: "cachedJwt (fst (snd (handle_start cfg e st args))) = cachedJwt st"
  by (simp add: handle_start_def split: option.splits sum.splits bool.splits)

lemma handle_charge_state: "fst (snd (handle_charge cfg e st args)) = st"
  by (simp add: handle_charge_def split: option.splits sum.splits)

lemma handle_usage_state: "fst (snd (handle_usage cfg e st args)) = st"
  by (simp add: handle_usage_def split: sum.splits)

lemma handle_status_cachedJwt: "cachedJwt (fst (snd (handle_status cfg e st args))) = cachedJwt st"
  by (simp add: handle_status_def split: option.splits sum.splits)

lemma handle_lnurl_state: "fst (snd (handle_lnurl cfg e st args)) = st"
  by (simp add: handle_lnurl_def split: option.splits sum.splits)

lemma other_tools_keep_cachedJwt:
  assumes "name \<noteq> ''liveauth_mcp_confirm''" and "name \<noteq> ''liveauth_mcp_refresh''"
  shows "cachedJwt (state_after (call_tool cfg e st name args)) = cachedJwt st"
  using assms
  by (simp add: call_tool_parts dispatch_def handle_start_cachedJwt handle_charge_state
      handle_usage_state handle_status_cachedJwt handle_lnurl_state)




lemma handle_confirm_live:
  assumes "demo_session cfg st a = None"
  shows "handle_confirm cfg e st (Some a) =
     (case read_response ''Confirm failed: '' e of
        Inl m \<Rightarrow> ([confirm_request cfg a], st, Inl m)
      | Inr result \<Rightarrow>
          if result = JNull then ([confirm_request cfg a], st, Inl (type_error e))
          else if getprop (Some result) ''paymentStatus'' = Some (JStr ''pending'')
          then ([confirm_request cfg a], st,
                Inr (ok_plain
                  (''Lightning payment pending. Poll with liveauth_mcp_status using quoteId: ''
                   @ str (map_of a ''quoteId''))))
          else ([confirm_request cfg a],
                (if truthy (getprop (Some result) ''jwt'')
                 then st\<lparr>cachedJwt := getprop (Some result) ''jwt''\<rparr> else st),
                Inr (ok_json result)))"
  using assms by (simp add: handle_confirm_def)

lemma read_response_cases:
  "read_response label e = Inr result \<longleftrightarrow> (\<exists>stt. fetched e = Responded True stt (Inr result))"
  by (cases "fetched e") (auto simp: read_response_def split: sum.splits)

lemma read_response_field:
  "read_response label e = Inr result \<Longrightarrow> ok_response_field e k = getprop (Some result) k"
  by (auto simp: read_response_cases ok_response_field_def)

lemma read_response_no_field:
  "read_response label e = Inl m \<Longrightarrow> ok_response_field e k = None"
  by (cases "fetched e") (auto simp: read_response_def ok_response_field_def split: sum.splits if_splits)

text \<open>
  Claim C10. A confirm that does not take the demo branch leaves the cached credential
  as it was when it ends in an error envelope (rejected fetch, response that is not ok,
  unreadable or null body), when the ok response has a null or absent \<open>jwt\<close>, and when
  the response reports a pending payment. If it does change the cache, the new value is
  the non-null \<open>jwt\<close> of an ok response. No tool other than confirm and refresh writes
  the cache.
\<close>

theorem confirm_failure_keeps_credential:
  assumes "\<forall>a. args = Some a \<longrightarrow> demo_session cfg st a = None"
  shows "(isError (reply (call_tool cfg e st ''liveauth_mcp_confirm'' args)) \<longrightarrow>
            cachedJwt (state_after (call_tool cfg e st ''liveauth_mcp_confirm'' args)) = cachedJwt st)
       \<and> (nullish (ok_response_field e ''jwt'') \<longrightarrow>
            cachedJwt (state_after (call_tool cfg e st ''liveauth_mcp_confirm'' args)) = cachedJwt st)
       \<and> (ok_response_field e ''paymentStatus'' = Some (JStr ''pending'') \<longrightarrow>
            cachedJwt (state_after (call_tool cfg e st ''liveauth_mcp_confirm'' args)) = cachedJwt st)
       \<and> (cachedJwt (state_after (call_tool cfg e st ''liveauth_mcp_confirm'' args)) \<noteq> cachedJwt st \<longrightarrow>
            cachedJwt (state_after (call_tool cfg e st ''liveauth_mcp_confirm'' args))
              = ok_response_field e ''jwt''
            \<and> \<not> nullish (ok_response_field e ''jwt''))
       \<and> (name \<noteq> ''liveauth_mcp_confirm'' \<and> name \<noteq> ''liveauth_mcp_refresh'' \<longrightarrow>
            cachedJwt (state_after (call_tool cfg e st name args)) = cachedJwt st)"
proof -
  let ?st' = "state_after (call_tool cfg e st ''liveauth_mcp_confirm'' args)"
  let ?r = "reply (call_tool cfg e st ''liveauth_mcp_confirm'' args)"
  have others: "name \<noteq> ''liveauth_mcp_confirm'' \<and> name \<noteq> ''liveauth_mcp_refresh'' \<longrightarrow>
            cachedJwt (state_after (call_tool cfg e st name args)) = cachedJwt st"
    by (simp add: other_tools_keep_cachedJwt)
  have confirm: "(isError ?r \<longrightarrow> cachedJwt ?st' = cachedJwt st)
       \<and> (nullish (ok_response_field e ''jwt'') \<longrightarrow> cachedJwt ?st' = cachedJwt st)
       \<and> (ok_response_field e ''paymentStatus'' = Some (JStr ''pending'') \<longrightarrow> cachedJwt ?st' = cachedJwt st)
       \<and> (cachedJwt ?st' \<noteq> cachedJwt st \<longrightarrow>
            cachedJwt ?st' = ok_response_field e ''jwt'' \<and> \<not> nullish (ok_response_field e ''jwt''))"
  proof (cases args)
    case None
    then show ?thesis
      by (simp add: call_tool_parts dispatch_def handle_confirm_def)
  next
    case (Some a)
    with assms have d: "demo_session cfg st a = None" by simp
    show ?thesis
    proof (cases "read_response ''Confirm failed: '' e")
      case (Inl m)
      then show ?thesis
        using Some d
        by (simp add: call_tool_parts dispatch_def handle_confirm_live)
    next
      case (Inr result)
      note f = read_response_field [OF Inr]
      show ?thesis
        using Some d Inr
        by (auto simp: call_tool_parts dispatch_def handle_confirm_live
            f ok_json_def ok_plain_def dest: truthy_not_nullish)
    qed
  qed
  from confirm others show ?thesis by blast
qed


lemmas run_defs =
  call_tool_parts dispatch_def handle_start_def handle_confirm_def handle_charge_def
  handle_usage_def handle_status_def handle_lnurl_def handle_refresh_def demo_session_def
  read_response_def LIVEAUTH_DEMO_def sessions_get_def sessions_set_def js_or_def
  ok_json_def ok_plain_def

lemmas example_defs =
  example_config_def live_config_def example_env_def initial_state_def q1_args_def
  pending_body_def refresh_body_def confirm_jwt_body_def deny_body_def paid_invoice_start_def
  refresh_call_def confirm_call_def status_call_def charge_args_def
  pow_args_def empty_signature_args_def zero_difficulty_args_def

theorem confirm_failure_keeps_credential_witness:
  "demo_session live_config initial_state q1_args = None
   \<and> nullish (ok_response_field (example_env 0 (Responded True ''OK'' (Inr pending_body))) ''jwt'')
   \<and> ok_response_field (example_env 0 (Responded True ''OK'' (Inr pending_body))) ''paymentStatus''
        = Some (JStr ''pending'')
   \<and> ''liveauth_mcp_usage'' \<noteq> ''liveauth_mcp_confirm'' \<and> ''liveauth_mcp_usage'' \<noteq> ''liveauth_mcp_refresh''
   \<and> cachedJwt (state_after (call_tool live_config (example_env 0 (Responded True ''OK'' (Inr pending_body)))
        initial_state ''liveauth_mcp_confirm'' (Some q1_args))) = cachedJwt initial_state
   \<and> isError (reply (call_tool live_config (example_env 0 (Responded False ''Bad Request'' (Inr (JObj []))))
        initial_state ''liveauth_mcp_confirm'' (Some q1_args)))
   \<and> cachedJwt (state_after (call_tool live_config (example_env 0 (Responded False ''Bad Request'' (Inr (JObj []))))
        initial_state ''liveauth_mcp_confirm'' (Some q1_args))) = cachedJwt initial_state
   \<and> cachedJwt (state_after (call_tool live_config (example_env 0 (Responded True ''OK'' (Inr confirm_jwt_body)))
        initial_state ''liveauth_mcp_confirm'' (Some q1_args))) \<noteq> cachedJwt initial_state
   \<and> cachedJwt (state_after (call_tool live_config (example_env 0 (Responded True ''OK'' (Inr confirm_jwt_body)))
        initial_state ''liveauth_mcp_confirm'' (Some q1_args)))
        = ok_response_field (example_env 0 (Responded True ''OK'' (Inr confirm_jwt_body))) ''jwt''"
proof -
  have h: "\<forall>a. Some q1_args = Some a \<longrightarrow> demo_session live_config initial_state a = None"
    by (simp add: run_defs example_defs)
  have p1: "nullish (ok_response_field (example_env 0 (Responded True ''OK'' (Inr pending_body))) ''jwt'')"
    by (simp add: ok_response_field_def nullish_def example_defs)
  have p2: "ok_response_field (example_env 0 (Responded True ''OK'' (Inr pending_body))) ''paymentStatus''
        = Some (JStr ''pending'')"
    by (simp add: ok_response_field_def example_defs)
  have p3: "isError (reply (call_tool live_config (example_env 0 (Responded False ''Bad Request'' (Inr (JObj []))))
        initial_state ''liveauth_mcp_confirm'' (Some q1_args)))"
    by (simp add: run_defs example_defs)
  have p4: "cachedJwt (state_after (call_tool live_config (example_env 0 (Responded True ''OK'' (Inr confirm_jwt_body)))
        initial_state ''liveauth_mcp_confirm'' (Some q1_args))) \<noteq> cachedJwt initial_state"
    by (simp add: run_defs example_defs)
  note a = confirm_failure_keeps_credential [OF h,
      of "example_env 0 (Responded True ''OK'' (Inr pending_body))" "''liveauth_mcp_usage''"]
  note b = confirm_failure_keeps_credential [OF h,
      of "example_env 0 (Responded False ''Bad Request'' (Inr (JObj [])))" "''liveauth_mcp_usage''"]
  note c = confirm_failure_keeps_credential [OF h,
      of "example_env 0 (Responded True ''OK'' (Inr confirm_jwt_body))" "''liveauth_mcp_usage''"]
  have n: "''liveauth_mcp_usage'' \<noteq> ''liveauth_mcp_confirm'' \<and> ''liveauth_mcp_usage'' \<noteq> ''liveauth_mcp_refresh''"
    by simp
  from a b c h p1 p2 p3 p4 n show ?thesis by blast
qed


subsection \<open>The credential that charge and usage attach\<close>

















subsection \<open>The confirm payload\<close>

lemma map_of_wire_absent: "k \<notin> fst ` set kvs \<Longrightarrow> map_of (wire kvs) k = None"
  by (induction kvs rule: wire.induct) auto

lemma map_of_wire:
  "distinct (map fst kvs) \<Longrightarrow>
     map_of (wire kvs) k = (case map_of kvs k of None \<Rightarrow> None | Some v \<Rightarrow> v)"
  by (induction kvs rule: wire.induct) (auto simp: map_of_wire_absent)



lemma distinct_confirm_fields: "distinct (map fst (confirm_fields a))"
  by (simp add: confirm_fields_def)

lemma map_of_confirm_fields:
  "map_of (confirm_fields a) k =
     (if k = ''quoteId'' then Some (map_of a ''quoteId'')
      else if k = ''challengeHex'' \<and> truthy (map_of a ''challengeHex'') then Some (map_of a ''challengeHex'')
      else if k = ''nonce'' \<and> map_of a ''nonce'' \<noteq> None then Some (map_of a ''nonce'')
      else if k = ''hashHex'' \<and> truthy (map_of a ''hashHex'') then Some (map_of a ''hashHex'')
      else if k = ''expiresAtUnix'' \<and> truthy (map_of a ''expiresAtUnix'') then Some (map_of a ''expiresAtUnix'')
      else if k = ''difficultyBits'' \<and> truthy (map_of a ''difficultyBits'') then Some (map_of a ''difficultyBits'')
      else if k = ''sig'' \<and> truthy (map_of a ''signature'') then Some (map_of a ''signature'')
      else None)"
  by (simp add: confirm_fields_def)

lemma map_of_confirm_body:
  "map_of (confirm_body a) k =
     (if k = ''quoteId'' then map_of a ''quoteId''
      else if k = ''challengeHex'' \<and> truthy (map_of a ''challengeHex'') then map_of a ''challengeHex''
      else if k = ''nonce'' then map_of a ''nonce''
      else if k = ''hashHex'' \<and> truthy (map_of a ''hashHex'') then map_of a ''hashHex''
      else if k = ''expiresAtUnix'' \<and> truthy (map_of a ''expiresAtUnix'') then map_of a ''expiresAtUnix''
      else if k = ''difficultyBits'' \<and> truthy (map_of a ''difficultyBits'') then map_of a ''difficultyBits''
      else if k = ''sig'' \<and> truthy (map_of a ''signature'') then map_of a ''signature''
      else None)"
  unfolding confirm_body_def
  by (simp only: map_of_wire [OF distinct_confirm_fields] map_of_confirm_fields) auto


lemma confirm_body_first_sig:
  "map_of (confirm_body_first a) ''sig'' = map_of a ''signature''
   \<and> map_of (confirm_body_first a) ''signature'' = None"
  by (simp add: confirm_body_first_def map_of_wire)





lemma guarded_not_null: "(if truthy v then v else None) \<noteq> Some JNull"
proof (cases "truthy v")
  case True
  then show ?thesis by auto
next
  case False
  then show ?thesis by simp
qed

lemma confirm_body_guarded:
  "map_of (confirm_body a) ''challengeHex''
     = (if truthy (map_of a ''challengeHex'') then map_of a ''challengeHex'' else None)"
  "map_of (confirm_body a) ''hashHex''
     = (if truthy (map_of a ''hashHex'') then map_of a ''hashHex'' else None)"
  "map_of (confirm_body a) ''expiresAtUnix''
     = (if truthy (map_of a ''expiresAtUnix'') then map_of a ''expiresAtUnix'' else None)"
  "map_of (confirm_body a) ''difficultyBits''
     = (if truthy (map_of a ''difficultyBits'') then map_of a ''difficultyBits'' else None)"
  "map_of (confirm_body a) ''sig''
     = (if truthy (map_of a ''signature'') then map_of a ''signature'' else None)"
  "map_of (confirm_body a) ''nonce'' = map_of a ''nonce''"
  by (simp_all add: map_of_confirm_body)

text \<open>
  Claim C9, as the code has it. \<open>nonce\<close> is in the payload exactly when the argument bag
  has it, with the value of the bag. Each of \<open>challengeHex\<close>, \<open>hashHex\<close>,
  \<open>expiresAtUnix\<close>, \<open>difficultyBits\<close> and \<open>signature\<close> (sent as \<open>sig\<close>) is in the payload
  exactly when its argument is truthy: present and neither null, false, zero nor the
  empty string. So an absent field is left out, none of these five is ever sent as null,
  and a confirm whose bag holds only the session id sends only the session id.
\<close>

theorem confirm_optional_fields:
  "(k \<in> {''challengeHex'', ''hashHex'', ''expiresAtUnix'', ''difficultyBits''} \<longrightarrow>
      map_of (confirm_body a) k = (if truthy (map_of a k) then map_of a k else None))
   \<and> map_of (confirm_body a) ''sig''
        = (if truthy (map_of a ''signature'') then map_of a ''signature'' else None)
   \<and> map_of (confirm_body a) ''nonce'' = map_of a ''nonce''
   \<and> (k \<in> {''challengeHex'', ''hashHex'', ''expiresAtUnix'', ''difficultyBits'', ''sig''} \<longrightarrow>
        map_of (confirm_body a) k \<noteq> Some JNull)
   \<and> (k \<in> {''challengeHex'', ''nonce'', ''hashHex'', ''expiresAtUnix'', ''difficultyBits''}
        \<and> map_of a k = None \<longrightarrow> map_of (confirm_body a) k = None)
   \<and> (map_of a ''signature'' = None \<longrightarrow> map_of (confirm_body a) ''sig'' = None)
   \<and> confirm_body [(''quoteId'', q)] = [(''quoteId'', q)]"
proof (intro conjI impI)
  show "map_of (confirm_body a) k = (if truthy (map_of a k) then map_of a k else None)"
    if "k \<in> {''challengeHex'', ''hashHex'', ''expiresAtUnix'', ''difficultyBits''}"
    using that by (elim insertE emptyE) (simp_all only: confirm_body_guarded)
  show "map_of (confirm_body a) ''sig''
        = (if truthy (map_of a ''signature'') then map_of a ''signature'' else None)"
    by (rule confirm_body_guarded)
  show "map_of (confirm_body a) ''nonce'' = map_of a ''nonce''"
    by (rule confirm_body_guarded)
  show "map_of (confirm_body a) k \<noteq> Some JNull"
    if "k \<in> {''challengeHex'', ''hashHex'', ''expiresAtUnix'', ''difficultyBits'', ''sig''}"
    using that
    by (elim insertE emptyE) (simp_all only: confirm_body_guarded guarded_not_null not_False_eq_True)
  show "map_of (confirm_body a) k = None"
    if "k \<in> {''challengeHex'', ''nonce'', ''hashHex'', ''expiresAtUnix'', ''difficultyBits''}
        \<and> map_of a k = None"
  proof -
    from that have n: "map_of a k = None" and m: "k \<in> {''challengeHex'', ''nonce'', ''hashHex'', ''expiresAtUnix'', ''difficultyBits''}"
      by simp_all
    from m n show ?thesis
      by (elim insertE emptyE) (simp_all add: confirm_body_guarded)
  qed
  show "map_of (confirm_body a) ''sig'' = None" if "map_of a ''signature'' = None"
    using that by (simp add: confirm_body_guarded)
  show "confirm_body [(''quoteId'', q)] = [(''quoteId'', q)]"
    by (simp add: confirm_body_def confirm_fields_def)
qed

theorem confirm_optional_fields_witness:
  "''difficultyBits'' \<in> {''challengeHex'', ''hashHex'', ''expiresAtUnix'', ''difficultyBits''}
   \<and> map_of (confirm_body pow_args) ''difficultyBits'' = Some (JNum 18)
   \<and> map_of (confirm_body pow_args) ''nonce'' = Some (JNum 0)
   \<and> ''hashHex'' \<in> {''challengeHex'', ''nonce'', ''hashHex'', ''expiresAtUnix'', ''difficultyBits''}
   \<and> map_of q1_args ''hashHex'' = None
   \<and> map_of (confirm_body q1_args) ''hashHex'' = None
   \<and> map_of q1_args ''signature'' = None
   \<and> map_of (confirm_body q1_args) ''sig'' = None
   \<and> confirm_body q1_args = [(''quoteId'', JStr ''q1'')]"
proof -
  have h1: "''difficultyBits'' \<in> {''challengeHex'', ''hashHex'', ''expiresAtUnix'', ''difficultyBits''}"
    by simp
  have h2: "''hashHex'' \<in> {''challengeHex'', ''nonce'', ''hashHex'', ''expiresAtUnix'', ''difficultyBits''}"
    by simp
  have h3: "map_of q1_args ''hashHex'' = None \<and> map_of q1_args ''signature'' = None"
    by (simp add: q1_args_def)
  have v1: "truthy (map_of pow_args ''difficultyBits'') \<and> map_of pow_args ''difficultyBits'' = Some (JNum 18)
            \<and> map_of pow_args ''nonce'' = Some (JNum 0)"
    by (simp add: pow_args_def)
  note t1 = confirm_optional_fields [where a = pow_args and k = "''difficultyBits''" and q = "JStr ''q1''"]
  note t2 = confirm_optional_fields [where a = q1_args and k = "''hashHex''" and q = "JStr ''q1''"]
  have q: "q1_args = [(''quoteId'', JStr ''q1'')]" by (simp add: q1_args_def)
  from t1 t2 h1 h2 h3 v1 show ?thesis unfolding q by simp
qed

text \<open>
  Claim C9 as stated fails: \<open>difficultyBits\<close> is present in the argument bag with the
  value 0 and is not in the payload.
\<close>

theorem confirm_optional_fields_counterexample:
  "map_of zero_difficulty_args ''difficultyBits'' = Some (JNum 0)
   \<and> confirm_body zero_difficulty_args
       = [(''quoteId'', JStr ''q7''), (''challengeHex'', JStr ''a1b2c3''), (''nonce'', JNum 41),
          (''hashHex'', JStr ''0000ab''), (''expiresAtUnix'', JNum 1700000000),
          (''sig'', JStr ''c2lnbmVk'')]"
  by (simp add: confirm_body_def confirm_fields_def zero_difficulty_args_def)


subsection \<open>Demo payment records\<close>

lemma handle_refresh_sessions:
  "demoSessions (fst (snd (handle_refresh cfg e st args))) = demoSessions st"
  by (simp add: handle_refresh_def split: option.splits sum.splits)

lemma handle_start_sessions:
  "demoSessions (fst (snd (handle_start cfg e st args))) = demoSessions st
   \<or> (\<exists>stt result. fetched e = Responded True stt (Inr result)
         \<and> demoSessions (fst (snd (handle_start cfg e st args)))
             = sessions_set (demoSessions st) (start_sessionId result) (start_demo_session e result))"
proof (cases args)
  case None
  then show ?thesis by (simp add: handle_start_def)
next
  case (Some a)
  show ?thesis
  proof (cases "read_response ''Start failed: '' e")
    case (Inl m)
    with Some show ?thesis by (simp add: handle_start_def)
  next
    case (Inr result)
    then obtain stt where "fetched e = Responded True stt (Inr result)"
      by (auto simp: read_response_cases)
    with Some Inr show ?thesis
      by (auto simp: handle_start_def split: option.splits bool.splits)
  qed
qed

lemma handle_confirm_sessions:
  "demoSessions (fst (snd (handle_confirm cfg e st args))) = demoSessions st
   \<or> (\<exists>a session. args = Some a \<and> sessions_get (demoSessions st) (map_of a ''quoteId'') = Some session
         \<and> demoSessions (fst (snd (handle_confirm cfg e st args)))
             = sessions_set (demoSessions st) (map_of a ''quoteId'') (session\<lparr>paid := True\<rparr>))"
proof (cases args)
  case None
  then show ?thesis by (simp add: handle_confirm_def)
next
  case (Some a)
  show ?thesis
  proof (cases "demo_session cfg st a")
    case None
    with Some show ?thesis
      by (simp add: handle_confirm_live split: sum.splits)
  next
    case (Some session)
    then have "sessions_get (demoSessions st) (map_of a ''quoteId'') = Some session"
      by (simp add: demo_session_def split: if_splits)
    with Some \<open>args = Some a\<close> show ?thesis
      by (simp add: handle_confirm_def)
  qed
qed

lemma handle_status_sessions:
  "demoSessions (fst (snd (handle_status cfg e st args))) = demoSessions st
   \<or> (\<exists>a session. args = Some a \<and> sessions_get (demoSessions st) (map_of a ''quoteId'') = Some session
         \<and> demoSessions (fst (snd (handle_status cfg e st args)))
             = sessions_set (demoSessions st) (map_of a ''quoteId'') (status_poll e session))"
proof (cases args)
  case None
  then show ?thesis by (simp add: handle_status_def)
next
  case (Some a)
  show ?thesis
  proof (cases "demo_session cfg st a")
    case None
    with Some show ?thesis
      by (simp add: handle_status_def split: sum.splits)
  next
    case (Some session)
    then have "sessions_get (demoSessions st) (map_of a ''quoteId'') = Some session"
      by (simp add: demo_session_def split: if_splits)
    with Some \<open>args = Some a\<close> show ?thesis
      by (simp add: handle_status_def)
  qed
qed

lemma status_poll_paid: "paid (status_poll e session) = (paid session \<or> now e - createdAt session > 2000)"
  by (simp add: status_poll_def)

lemma paid_after_set:
  assumes "sessions_get m q = Some s" and "paid s"
    and "k = q \<longrightarrow> paid v"
  shows "\<exists>s'. sessions_get (sessions_set m k v) q = Some s' \<and> paid s'"
proof (cases "k = q")
  case True
  with assms show ?thesis by (simp add: sessions_get_set_same)
next
  case False
  then have "q \<noteq> k" by simp
  with assms show ?thesis by (simp add: sessions_get_set_other)
qed

lemma step_keeps_paid:
  assumes "sessions_get (demoSessions st) q = Some s" and "paid s" and "\<not> registers c q"
  shows "\<exists>s'. sessions_get
                (demoSessions (state_after (call_tool cfg (environment c) st (tool c) (arguments c)))) q
              = Some s' \<and> paid s'"
proof -
  let ?e = "environment c" and ?args = "arguments c"
  consider "tool c = ''liveauth_mcp_start''" | "tool c = ''liveauth_mcp_confirm''"
    | "tool c = ''liveauth_mcp_status''"
    | "tool c \<noteq> ''liveauth_mcp_start''" "tool c \<noteq> ''liveauth_mcp_confirm''"
      "tool c \<noteq> ''liveauth_mcp_status''"
    by auto
  then show ?thesis
  proof cases
    case 1
    from handle_start_sessions [of cfg ?e st ?args] show ?thesis
    proof
      assume "demoSessions (fst (snd (handle_start cfg ?e st ?args))) = demoSessions st"
      with 1 assms(1,2) show ?thesis by (simp add: call_tool_parts dispatch_def)
    next
      assume "\<exists>stt result. fetched ?e = Responded True stt (Inr result)
         \<and> demoSessions (fst (snd (handle_start cfg ?e st ?args)))
             = sessions_set (demoSessions st) (start_sessionId result) (start_demo_session ?e result)"
      then obtain stt result where f: "fetched ?e = Responded True stt (Inr result)"
        and d: "demoSessions (fst (snd (handle_start cfg ?e st ?args)))
             = sessions_set (demoSessions st) (start_sessionId result) (start_demo_session ?e result)"
        by blast
      from f 1 assms(3) have "start_sessionId result \<noteq> q"
        by (simp add: registers_def)
      then have "q \<noteq> start_sessionId result" by simp
      with 1 d assms(1,2) show ?thesis
        by (simp add: call_tool_parts dispatch_def sessions_get_set_other)
    qed
  next
    case 2
    from handle_confirm_sessions [of cfg ?e st ?args] show ?thesis
    proof
      assume "demoSessions (fst (snd (handle_confirm cfg ?e st ?args))) = demoSessions st"
      with 2 assms(1,2) show ?thesis by (simp add: call_tool_parts dispatch_def)
    next
      assume "\<exists>a session. ?args = Some a \<and> sessions_get (demoSessions st) (map_of a ''quoteId'') = Some session
         \<and> demoSessions (fst (snd (handle_confirm cfg ?e st ?args)))
             = sessions_set (demoSessions st) (map_of a ''quoteId'') (session\<lparr>paid := True\<rparr>)"
      then obtain a session where
        d: "demoSessions (fst (snd (handle_confirm cfg ?e st ?args)))
             = sessions_set (demoSessions st) (map_of a ''quoteId'') (session\<lparr>paid := True\<rparr>)"
        by blast
      have "\<exists>s'. sessions_get (sessions_set (demoSessions st) (map_of a ''quoteId'') (session\<lparr>paid := True\<rparr>)) q
              = Some s' \<and> paid s'"
        using assms(1,2) by (rule paid_after_set) simp
      with 2 d show ?thesis by (simp add: call_tool_parts dispatch_def)
    qed
  next
    case 3
    from handle_status_sessions [of cfg ?e st ?args] show ?thesis
    proof
      assume "demoSessions (fst (snd (handle_status cfg ?e st ?args))) = demoSessions st"
      with 3 assms(1,2) show ?thesis by (simp add: call_tool_parts dispatch_def)
    next
      assume "\<exists>a session. ?args = Some a \<and> sessions_get (demoSessions st) (map_of a ''quoteId'') = Some session
         \<and> demoSessions (fst (snd (handle_status cfg ?e st ?args)))
             = sessions_set (demoSessions st) (map_of a ''quoteId'') (status_poll ?e session)"
      then obtain a session where
        g: "sessions_get (demoSessions st) (map_of a ''quoteId'') = Some session" and
        d: "demoSessions (fst (snd (handle_status cfg ?e st ?args)))
             = sessions_set (demoSessions st) (map_of a ''quoteId'') (status_poll ?e session)"
        by blast
      have "map_of a ''quoteId'' = q \<longrightarrow> paid (status_poll ?e session)"
        using g assms(1,2) by (auto simp: status_poll_paid)
      with assms(1,2)
      have "\<exists>s'. sessions_get (sessions_set (demoSessions st) (map_of a ''quoteId'') (status_poll ?e session)) q
              = Some s' \<and> paid s'"
        by (rule paid_after_set)
      with 3 d show ?thesis by (simp add: call_tool_parts dispatch_def)
    qed
  next
    case 4
    then have "demoSessions (state_after (call_tool cfg ?e st (tool c) ?args)) = demoSessions st"
      by (simp add: call_tool_parts dispatch_def handle_charge_state handle_usage_state
          handle_lnurl_state handle_refresh_sessions)
    with assms(1,2) show ?thesis by simp
  qed
qed

lemma run_keeps_paid:
  "sessions_get (demoSessions st) q = Some s \<Longrightarrow> paid s \<Longrightarrow> \<forall>c\<in>set cs. \<not> registers c q
     \<Longrightarrow> \<exists>s'. sessions_get (demoSessions (run cfg st cs)) q = Some s' \<and> paid s'"
proof (induction cs arbitrary: st s)
  case Nil
  then show ?case by simp
next
  case (Cons c cs)
  from Cons.prems have "\<not> registers c q" by simp
  with Cons.prems(1,2) obtain s1 where
    "sessions_get (demoSessions (state_after (call_tool cfg (environment c) st (tool c) (arguments c)))) q
       = Some s1" and "paid s1"
    using step_keeps_paid by blast
  moreover from Cons.prems have "\<forall>c\<in>set cs. \<not> registers c q" by simp
  ultimately show ?case
    using Cons.IH by simp
qed


lemma status_demo:
  assumes "LIVEAUTH_DEMO cfg" and "sessions_get (demoSessions st) (map_of a ''quoteId'') = Some session"
  shows "dispatch cfg e st ''liveauth_mcp_status'' (Some a) =
           ([], st\<lparr>demoSessions := sessions_set (demoSessions st) (map_of a ''quoteId'') (status_poll e session)\<rparr>,
            Inr (ok_json (status_demo_text e (status_poll e session))))"
  using assms by (simp add: dispatch_def handle_status_def demo_session_def)

lemma confirm_demo:
  assumes "LIVEAUTH_DEMO cfg" and "sessions_get (demoSessions st) (map_of a ''quoteId'') = Some session"
  shows "dispatch cfg e st ''liveauth_mcp_confirm'' (Some a) =
           ([], st\<lparr>demoSessions := sessions_set (demoSessions st) (map_of a ''quoteId'') (session\<lparr>paid := True\<rparr>),
                   cachedJwt := Some (JStr (demoJwt e))\<rparr>,
            Inr (ok_json (confirm_demo_text e)))"
  using assms by (simp add: dispatch_def handle_confirm_def demo_session_def)

lemma status_demo_paymentStatus:
  "reply_field (ok_json (status_demo_text e s)) ''paymentStatus''
     = Some (JStr (if paid s then ''paid'' else ''pending''))"
  by (cases "quoteId s") (simp_all add: reply_field_def ok_json_def status_demo_text_def)

lemma status_reply_paymentStatus:
  assumes "LIVEAUTH_DEMO cfg" and "sessions_get (demoSessions st) (map_of a ''quoteId'') = Some session"
  shows "reply_field (reply (call_tool cfg e st ''liveauth_mcp_status'' (Some a))) ''paymentStatus''
           = Some (JStr (if paid session \<or> now e - createdAt session > 2000 then ''paid'' else ''pending''))"
  by (simp add: call_tool_parts status_demo [OF assms] status_demo_paymentStatus status_poll_paid)

text \<open>
  Claim C2, as the code has it. In demo mode, status on a session id that has a record
  answers \<open>paid\<close> when the record is already marked paid or more than 2000 ms have passed
  since its creation, and \<open>pending\<close> otherwise (so at exactly 2000 ms an unpaid record is
  still pending, and after a confirm the answer is paid at once). The record is left
  marked paid exactly when the answer was paid, and confirm leaves it marked paid. Once
  the record is marked paid, every later status call on that id answers \<open>paid\<close>, whatever
  the clock reads, across any calls that do not file a new record under the same id.
\<close>

theorem demo_status_paid_after_threshold:
  assumes "LIVEAUTH_DEMO cfg"
    and "sessions_get (demoSessions st) (map_of a ''quoteId'') = Some session"
  shows "reply_field (reply (call_tool cfg e st ''liveauth_mcp_status'' (Some a))) ''paymentStatus''
           = Some (JStr (if paid session \<or> now e - createdAt session > 2000 then ''paid'' else ''pending''))
       \<and> sessions_get (demoSessions (state_after (call_tool cfg e st ''liveauth_mcp_status'' (Some a))))
            (map_of a ''quoteId'') = Some (status_poll e session)
       \<and> paid (status_poll e session) = (paid session \<or> now e - createdAt session > 2000)
       \<and> sessions_get (demoSessions (state_after (call_tool cfg e st ''liveauth_mcp_confirm'' (Some a))))
            (map_of a ''quoteId'') = Some (session\<lparr>paid := True\<rparr>)
       \<and> (paid session \<and> (\<forall>c\<in>set cs. \<not> registers c (map_of a ''quoteId'')) \<longrightarrow>
            reply_field (reply (call_tool cfg e' (run cfg st cs) ''liveauth_mcp_status'' (Some a)))
              ''paymentStatus'' = Some (JStr ''paid''))"
proof (intro conjI impI)
  show "reply_field (reply (call_tool cfg e st ''liveauth_mcp_status'' (Some a))) ''paymentStatus''
           = Some (JStr (if paid session \<or> now e - createdAt session > 2000 then ''paid'' else ''pending''))"
    using assms by (rule status_reply_paymentStatus)
  show "sessions_get (demoSessions (state_after (call_tool cfg e st ''liveauth_mcp_status'' (Some a))))
            (map_of a ''quoteId'') = Some (status_poll e session)"
    using assms(2) by (simp add: call_tool_parts status_demo [OF assms] sessions_get_set_same)
  show "paid (status_poll e session) = (paid session \<or> now e - createdAt session > 2000)"
    by (rule status_poll_paid)
  show "sessions_get (demoSessions (state_after (call_tool cfg e st ''liveauth_mcp_confirm'' (Some a))))
            (map_of a ''quoteId'') = Some (session\<lparr>paid := True\<rparr>)"
    using assms(2) by (simp add: call_tool_parts confirm_demo [OF assms] sessions_get_set_same)
next
  assume h: "paid session \<and> (\<forall>c\<in>set cs. \<not> registers c (map_of a ''quoteId''))"
  then obtain s' where g: "sessions_get (demoSessions (run cfg st cs)) (map_of a ''quoteId'') = Some s'"
    and p: "paid s'"
    using run_keeps_paid [OF assms(2), of cs cfg] by blast
  from status_reply_paymentStatus [OF assms(1) g, of e'] p
  show "reply_field (reply (call_tool cfg e' (run cfg st cs) ''liveauth_mcp_status'' (Some a)))
              ''paymentStatus'' = Some (JStr ''paid'')"
    by simp
qed


lemma q1_args_quoteId: "map_of q1_args ''quoteId'' = Some (JStr ''q1'')"
  by (simp add: q1_args_def)

lemma started_state_q1: "sessions_get (demoSessions started_state) (map_of q1_args ''quoteId'') = Some q1_record"
  by (simp add: q1_args_quoteId started_state_session)

theorem demo_status_paid_after_threshold_witness:
  "LIVEAUTH_DEMO example_config
   \<and> sessions_get (demoSessions started_state) (map_of q1_args ''quoteId'') = Some q1_record
   \<and> reply_field (reply (call_tool example_config (example_env 3001 (Rejected ''offline'')) started_state
        ''liveauth_mcp_status'' (Some q1_args))) ''paymentStatus'' = Some (JStr ''paid'')
   \<and> reply_field (reply (call_tool example_config (example_env 2999 (Rejected ''offline'')) started_state
        ''liveauth_mcp_status'' (Some q1_args))) ''paymentStatus'' = Some (JStr ''pending'')
   \<and> sessions_get (demoSessions polled_state) (map_of q1_args ''quoteId'') = Some (q1_record\<lparr>paid := True\<rparr>)
   \<and> paid (q1_record\<lparr>paid := True\<rparr>)
   \<and> \<not> registers status_call (map_of q1_args ''quoteId'')
   \<and> reply_field (reply (call_tool example_config (example_env 1500 (Rejected ''offline''))
        (run example_config polled_state [status_call]) ''liveauth_mcp_status'' (Some q1_args)))
        ''paymentStatus'' = Some (JStr ''paid'')"
proof -
  note h1 = example_config_demo
  note h2 = started_state_q1
  note t1 = demo_status_paid_after_threshold [OF h1 h2,
      where e = "example_env 3001 (Rejected ''offline'')" and cs = "[]"
        and e' = "example_env 3001 (Rejected ''offline'')"]
  note t0 = demo_status_paid_after_threshold [OF h1 h2,
      where e = "example_env 2999 (Rejected ''offline'')" and cs = "[]"
        and e' = "example_env 2999 (Rejected ''offline'')"]
  have p1: "status_poll (example_env 3001 (Rejected ''offline'')) q1_record = q1_record\<lparr>paid := True\<rparr>"
    by (simp add: status_poll_def example_env_def q1_record_def)
  have a1: "reply_field (reply (call_tool example_config (example_env 3001 (Rejected ''offline'')) started_state
        ''liveauth_mcp_status'' (Some q1_args))) ''paymentStatus'' = Some (JStr ''paid'')"
    using t1 by (simp add: example_env_def q1_record_def)
  have a0: "reply_field (reply (call_tool example_config (example_env 2999 (Rejected ''offline'')) started_state
        ''liveauth_mcp_status'' (Some q1_args))) ''paymentStatus'' = Some (JStr ''pending'')"
    using t0 by (simp add: example_env_def q1_record_def)
  have h3: "sessions_get (demoSessions polled_state) (map_of q1_args ''quoteId'') = Some (q1_record\<lparr>paid := True\<rparr>)"
    using t1 by (simp add: polled_state_def p1)
  have h4: "paid (q1_record\<lparr>paid := True\<rparr>)" by simp
  have h5: "\<not> registers status_call (map_of q1_args ''quoteId'')"
    by (simp add: registers_def status_call_def)
  then have h5': "\<forall>c\<in>set [status_call]. \<not> registers c (map_of q1_args ''quoteId'')" by simp
  note t2 = demo_status_paid_after_threshold [OF h1 h3,
      where e = "example_env 1500 (Rejected ''offline'')" and cs = "[status_call]"
        and e' = "example_env 1500 (Rejected ''offline'')"]
  from t2 h4 h5' have a2: "reply_field (reply (call_tool example_config (example_env 1500 (Rejected ''offline''))
        (run example_config polled_state [status_call]) ''liveauth_mcp_status'' (Some q1_args)))
        ''paymentStatus'' = Some (JStr ''paid'')"
    by blast
  from h1 h2 a1 a0 h3 h4 h5 a2 show ?thesis by blast
qed

text \<open>
  Claim C2 as stated fails twice. At exactly 2000 ms after creation (elapsed time equal to
  the threshold) status on an unpaid record still answers \<open>pending\<close>; and 2 ms after
  creation (elapsed time below the threshold) status answers \<open>paid\<close> when a confirm came
  first.
\<close>

theorem demo_status_threshold_counterexample:
  "sessions_get (demoSessions started_state) (map_of q1_args ''quoteId'') = Some q1_record
   \<and> paid q1_record = False
   \<and> now (example_env 3000 (Rejected ''offline'')) - createdAt q1_record = 2000
   \<and> reply_field (reply (call_tool example_config (example_env 3000 (Rejected ''offline'')) started_state
        ''liveauth_mcp_status'' (Some q1_args))) ''paymentStatus'' = Some (JStr ''pending'')
   \<and> now (example_env 1002 (Rejected ''offline'')) - createdAt q1_record = 2
   \<and> reply_field (reply (call_tool example_config (example_env 1002 (Rejected ''offline''))
        (state_after (call_tool example_config (example_env 1001 (Rejected ''offline'')) started_state
           ''liveauth_mcp_confirm'' (Some q1_args)))
        ''liveauth_mcp_status'' (Some q1_args))) ''paymentStatus'' = Some (JStr ''paid'')"
proof -
  have a: "reply_field (reply (call_tool example_config (example_env 3000 (Rejected ''offline'')) started_state
        ''liveauth_mcp_status'' (Some q1_args))) ''paymentStatus'' = Some (JStr ''pending'')"
    using status_reply_paymentStatus [OF example_config_demo started_state_q1,
        of "example_env 3000 (Rejected ''offline'')"]
    by (simp add: example_env_def q1_record_def)
  have c: "sessions_get (demoSessions (state_after (call_tool example_config
        (example_env 1001 (Rejected ''offline'')) started_state ''liveauth_mcp_confirm'' (Some q1_args))))
        (map_of q1_args ''quoteId'') = Some (q1_record\<lparr>paid := True\<rparr>)"
    using started_state_q1
    by (simp add: call_tool_parts confirm_demo [OF example_config_demo started_state_q1]
        sessions_get_set_same)
  have b: "reply_field (reply (call_tool example_config (example_env 1002 (Rejected ''offline''))
        (state_after (call_tool example_config (example_env 1001 (Rejected ''offline'')) started_state
           ''liveauth_mcp_confirm'' (Some q1_args)))
        ''liveauth_mcp_status'' (Some q1_args))) ''paymentStatus'' = Some (JStr ''paid'')"
    using status_reply_paymentStatus [OF example_config_demo c,
        of "example_env 1002 (Rejected ''offline'')"]
    by simp
  have d: "paid q1_record = False
     \<and> now (example_env 3000 (Rejected ''offline'')) - createdAt q1_record = 2000
     \<and> now (example_env 1002 (Rejected ''offline'')) - createdAt q1_record = 2"
    by (simp add: example_env_def q1_record_def)
  from started_state_q1 a b d show ?thesis by blast
qed


subsection \<open>What demo mode answers without the network\<close>









end
